theory Spec2Isabelle
  imports Complex_Main "HOL-Library.Word"
begin

section \<open>PyAti: a client for the ATI force/torque sensor (src/PyAti.py)\<close>

text \<open>
  The class \<open>ATISensor\<close> talks to the sensor over two transports: a UDP socket that
  lives as long as the instance (\<open>read_raw_counts\<close>, \<open>read_ft\<close>,
  \<open>bias_current_value\<close>, \<open>close\<close>) and a TCP connection opened for each calibration
  query (\<open>read_calibration_info\<close>, \<open>recv_all\<close>). The methods are embedded as functions
  that take the instance and the state of the world they act on (the socket, the
  datagrams on their way, standard output) and return the outcome of the call with the
  new state.
\<close>

subsection \<open>Values, exceptions and outcomes\<close>

type_synonym byte = "8 word"
type_synonym bytes = "byte list"
type_synonym address = "string \<times> int"

text \<open>
  The exceptions the methods can meet. \<open>RuntimeError\<close> carries its message. \<open>OSError\<close>
  stands for every error of the socket layer and carries the text \<open>str\<close> gives for it
  (\<open>socket.timeout\<close> is an \<open>OSError\<close> too). All of them derive from \<open>Exception\<close>. Interrupts
  delivered from outside the program (\<open>KeyboardInterrupt\<close>) are not modelled.
\<close>

datatype exn =
    RuntimeError string
  | AttributeError string
  | OSError string
  | StructError
  | ValueError
  | IndexError
  | ZeroDivisionError

text \<open>
  A call returns a value, raises, or never comes back: the UDP socket is created
  without a timeout, so \<open>recvfrom\<close> waits for ever when no datagram arrives.
\<close>

datatype 'a outcome = Return 'a | Raise exn | Blocked

definition and_then :: "'a outcome \<Rightarrow> ('a \<Rightarrow> 'b outcome) \<Rightarrow> 'b outcome" where
  "and_then m f = (case m of Return x \<Rightarrow> f x | Raise e \<Rightarrow> Raise e | Blocked \<Rightarrow> Blocked)"

text \<open>Python's \<open>str\<close> of an exception, as the f-string in \<open>bias_current_value\<close> prints it.\<close>

fun str_exn :: "exn \<Rightarrow> string" where
  "str_exn (RuntimeError m) = m"
| "str_exn (AttributeError m) = m"
| "str_exn (OSError m) = m"
| "str_exn StructError = ''unpack requires a buffer of another size''"
| "str_exn ValueError = ''not enough values to unpack''"
| "str_exn IndexError = ''list index out of range''"
| "str_exn ZeroDivisionError = ''division by zero''"

subsection \<open>Python's \<open>str\<close> and \<open>hex\<close> of an integer\<close>

definition digit_char :: "nat \<Rightarrow> char" where
  "digit_char d = ''0123456789abcdef'' ! d"

fun digits :: "nat \<Rightarrow> nat \<Rightarrow> string" where
  "digits b n = (if n < b \<or> b < 2 then [digit_char n] else digits b (n div b) @ [digit_char (n mod b)])"

definition str_int :: "int \<Rightarrow> string" where
  "str_int i = (if i < 0 then ''-'' @ digits 10 (nat (- i)) else digits 10 (nat i))"

definition hex :: "int \<Rightarrow> string" where
  "hex i = (if i < 0 then ''-0x'' @ digits 16 (nat (- i)) else ''0x'' @ digits 16 (nat i))"

subsection \<open>The \<open>struct\<close> module, big-endian and unpadded (\<open>>\<close>)\<close>

text \<open>
  The format characters the source uses: \<open>B\<close> (unsigned, 1 byte), \<open>H\<close> (unsigned,
  2 bytes), \<open>I\<close> (unsigned, 4 bytes) and \<open>i\<close> (signed two's complement, 4 bytes). A count
  before a character repeats it. The padding of \<open>19x\<close> occurs only in the calibration
  request, which is written out below.
\<close>

datatype fmt = Fmt_B | Fmt_H | Fmt_I | Fmt_i

fun fmt_size :: "fmt \<Rightarrow> nat" where
  "fmt_size Fmt_B = 1"
| "fmt_size Fmt_H = 2"
| "fmt_size Fmt_I = 4"
| "fmt_size Fmt_i = 4"

definition calcsize :: "fmt list \<Rightarrow> nat" where
  "calcsize fs = sum_list (map fmt_size fs)"

definition be_uint :: "bytes \<Rightarrow> int" where
  "be_uint bs = foldl (\<lambda>acc b. acc * 256 + uint b) 0 bs"

definition be_sint :: "bytes \<Rightarrow> int" where
  "be_sint bs = (let v = be_uint bs; w = 8 * length bs
                 in if 2 ^ (w - 1) \<le> v then v - 2 ^ w else v)"

fun decode_field :: "fmt \<Rightarrow> bytes \<Rightarrow> int" where
  "decode_field Fmt_i bs = be_sint bs"
| "decode_field f bs = be_uint bs"

fun unpack_fields :: "fmt list \<Rightarrow> bytes \<Rightarrow> int list" where
  "unpack_fields [] bs = []"
| "unpack_fields (f # fs) bs =
     decode_field f (take (fmt_size f) bs) # unpack_fields fs (drop (fmt_size f) bs)"

definition struct_unpack :: "fmt list \<Rightarrow> bytes \<Rightarrow> int list outcome" where
  "struct_unpack fs bs =
     (if length bs \<noteq> calcsize fs then Raise StructError else Return (unpack_fields fs bs))"

text \<open>\<open>struct.pack\<close> of one \<open>H\<close> field whose value fits (the source packs constants only).\<close>

definition pack_H :: "int \<Rightarrow> bytes" where
  "pack_H v = [word_of_int (v div 256), word_of_int (v mod 256)]"

definition pack_HHHH :: "int \<Rightarrow> int \<Rightarrow> int \<Rightarrow> int \<Rightarrow> bytes" where
  "pack_HHHH a b c d = pack_H a @ pack_H b @ pack_H c @ pack_H d"

text \<open>\<open>struct.pack('>B19x', v)\<close>: one byte and 19 zero bytes of padding.\<close>

definition pack_B19x :: "int \<Rightarrow> bytes" where
  "pack_B19x v = word_of_int v # replicate 19 0"

subsection \<open>The instance\<close>

text \<open>
  The attributes \<open>__init__\<close> assigns are fields of the record (\<open>self.sock\<close> is the UDP
  socket of the world below). \<open>read_calibration_info\<close> reads one more attribute,
  \<open>self.ip\<close>, which no method assigns: the field \<open>ip\<close> is \<open>None\<close> while the instance
  has no such attribute and \<open>Some a\<close> once a caller has assigned it from outside.
\<close>

record sensor =
  tcp_port :: int
  addr :: address
  command :: bytes
  counts_per_force :: real
  counts_per_torque :: real
  timeout :: real
  ip :: "string option"

text \<open>
  \<open>__init__(self, ip, counts_per_force, counts_per_torque, tcp_port=49151,
  udp_port=49152, timeout=2.0)\<close>. The scale factors are Python numbers (\<open>int\<close> or
  \<open>float\<close>), modelled as reals; the rounding of floating-point arithmetic is not
  modelled.
\<close>

definition init :: "string \<Rightarrow> real \<Rightarrow> real \<Rightarrow> int \<Rightarrow> int \<Rightarrow> real \<Rightarrow> sensor" where
  "init ip_arg cpf cpt tcp_port_arg udp_port_arg timeout_arg =
     \<lparr> tcp_port = tcp_port_arg,
       addr = (ip_arg, udp_port_arg),
       command = pack_HHHH 0x1234 2 0 1,
       counts_per_force = cpf,
       counts_per_torque = cpt,
       timeout = timeout_arg,
       ip = None \<rparr>"

definition init_default :: "string \<Rightarrow> real \<Rightarrow> real \<Rightarrow> sensor" where
  "init_default ip_arg cpf cpt = init ip_arg cpf cpt 49151 49152 2"

subsection \<open>The UDP socket and standard output\<close>

text \<open>
  What the next calls of \<open>recvfrom\<close> meet: a datagram from the sensor or an error of
  the transport. When nothing is left, nothing arrives.
\<close>

datatype arrival = Datagram bytes | RecvFails exn

text \<open>
  \<open>sock_closed\<close>: \<open>close\<close> has been called on the socket. \<open>sent\<close>: the datagrams
  handed to the transport so far, with their destinations. \<open>recv_calls\<close>: how many calls
  of \<open>recvfrom\<close> reached the transport. \<open>send_faults\<close>: what the next calls of \<open>sendto\<close>
  meet (\<open>None\<close>: the datagram is accepted; nothing left: accepted). \<open>arrivals\<close>: as
  above. \<open>stdout\<close>: the lines printed so far.
\<close>

record world =
  sock_closed :: bool
  sent :: "(bytes \<times> address) list"
  recv_calls :: nat
  send_faults :: "exn option list"
  arrivals :: "arrival list"
  stdout :: "string list"

definition EBADF :: exn where
  "EBADF = OSError ''[Errno 9] Bad file descriptor''"

text \<open>\<open>socket.sendto\<close>. On a closed socket the file descriptor is gone.\<close>

definition sendto :: "bytes \<Rightarrow> address \<Rightarrow> world \<Rightarrow> unit outcome \<times> world" where
  "sendto d a w =
     (if sock_closed w then (Raise EBADF, w)
      else case send_faults w of
        [] \<Rightarrow> (Return (), w\<lparr>sent := sent w @ [(d, a)]\<rparr>)
      | None # rest \<Rightarrow> (Return (), w\<lparr>sent := sent w @ [(d, a)], send_faults := rest\<rparr>)
      | Some e # rest \<Rightarrow> (Raise e, w\<lparr>send_faults := rest\<rparr>))"

text \<open>
  \<open>socket.recvfrom(bufsize)\<close> on a datagram socket takes one whole datagram off the
  queue and returns at most \<open>bufsize\<close> bytes of it; what does not fit is discarded.
\<close>

definition recvfrom :: "nat \<Rightarrow> world \<Rightarrow> bytes outcome \<times> world" where
  "recvfrom bufsize w =
     (if sock_closed w then (Raise EBADF, w)
      else case arrivals w of
        [] \<Rightarrow> (Blocked, w\<lparr>recv_calls := recv_calls w + 1\<rparr>)
      | Datagram d # rest \<Rightarrow>
          (Return (take bufsize d), w\<lparr>recv_calls := recv_calls w + 1, arrivals := rest\<rparr>)
      | RecvFails e # rest \<Rightarrow>
          (Raise e, w\<lparr>recv_calls := recv_calls w + 1, arrivals := rest\<rparr>))"

definition print :: "string \<Rightarrow> world \<Rightarrow> world" where
  "print line w = w\<lparr>stdout := stdout w @ [line]\<rparr>"

subsection \<open>The RDT streaming client\<close>

definition fmt_6i :: "fmt list" where
  "fmt_6i = [Fmt_i, Fmt_i, Fmt_i, Fmt_i, Fmt_i, Fmt_i]"

text \<open>\<open>data[12:36]\<close>: a slice never fails, it is cut to what the bytes hold.\<close>

definition slice :: "nat \<Rightarrow> nat \<Rightarrow> 'a list \<Rightarrow> 'a list" where
  "slice i j xs = take (j - i) (drop i xs)"

definition read_raw_counts :: "sensor \<Rightarrow> world \<Rightarrow> int list outcome \<times> world" where
  "read_raw_counts self w =
     (case sendto (command self) (addr self) w of
        (Raise e, w1) \<Rightarrow> (Raise e, w1)
      | (Blocked, w1) \<Rightarrow> (Blocked, w1)
      | (Return u, w1) \<Rightarrow>
          (case recvfrom 36 w1 of
             (Raise e, w2) \<Rightarrow> (Raise e, w2)
           | (Blocked, w2) \<Rightarrow> (Blocked, w2)
           | (Return data, w2) \<Rightarrow>
               (if length data \<noteq> 36 then (Raise (RuntimeError ''Invalid ATI response length''), w2)
                else (struct_unpack fmt_6i (slice 12 36 data), w2))))"







definition BIAS_CMD :: bytes where
  "BIAS_CMD = pack_HHHH 0x1234 0x0042 0 0"

text \<open>
  \<open>bias_current_value\<close>: the \<open>try\<close> holds the send and the first \<open>print\<close>; the handler
  catches every \<open>Exception\<close> and prints it.
\<close>

definition bias_current_value :: "sensor \<Rightarrow> world \<Rightarrow> unit outcome \<times> world" where
  "bias_current_value self w =
     (case sendto BIAS_CMD (addr self) w of
        (Return u, w1) \<Rightarrow> (Return (), print ''[Bias] Sent software bias command to ATI device.'' w1)
      | (Raise e, w1) \<Rightarrow> (Return (), print (''[Bias Error] '' @ str_exn e) w1)
      | (Blocked, w1) \<Rightarrow> (Blocked, w1))"


subsection \<open>The calibration query client\<close>

text \<open>
  The sensor's side of one TCP connection: whether \<open>connect\<close> and \<open>sendall\<close> fail, the
  bytes the sensor sends back, in the pieces in which they arrive, and what follows the
  last piece: the sensor closes the connection, or it sends nothing more and the read
  runs into the timeout set with \<open>settimeout\<close>.
\<close>

datatype tcp_end = PeerCloses | Stalls

record peer =
  connect_fault :: "exn option"
  sendall_fault :: "exn option"
  segments :: "bytes list"
  ending :: tcp_end

text \<open>The calls made on the TCP socket, in order.\<close>

datatype tcp_call =
    Socket
  | SetTimeout real
  | Connect string int
  | SendAll bytes
  | Close

text \<open>
  \<open>sock.recv(n)\<close> returns at most \<open>n\<close> of the bytes that have arrived, and \<open>b''\<close> only
  when the peer has closed the connection; a piece without bytes wakes no reader.
\<close>

fun recv :: "nat \<Rightarrow> bytes list \<Rightarrow> tcp_end \<Rightarrow> bytes outcome \<times> bytes list" where
  "recv n [] PeerCloses = (Return [], [])"
| "recv n [] Stalls = (Raise (OSError ''timed out''), [])"
| "recv n (seg # rest) e =
     (if seg = [] then recv n rest e
      else if length seg \<le> n then (Return seg, rest)
      else (Return (take n seg), drop n seg # rest))"

text \<open>The loop of \<open>recv_all\<close>, with \<open>data\<close> as its accumulator.\<close>

function recv_loop :: "bytes list \<Rightarrow> tcp_end \<Rightarrow> nat \<Rightarrow> bytes \<Rightarrow> bytes outcome \<times> bytes list" where
  "recv_loop segs e len data =
     (if length data < len then
        (case recv (len - length data) segs e of
           (Return packet, segs') \<Rightarrow>
             (if packet = [] then (Return data, segs')
              else recv_loop segs' e len (data @ packet))
         | (Raise x, segs') \<Rightarrow> (Raise x, segs')
         | (Blocked, segs') \<Rightarrow> (Blocked, segs'))
      else (Return data, segs))"
  by pat_completeness auto
termination
  by (relation "measure (\<lambda>(segs, e, len, data). len - length data)")
    (auto simp: neq_Nil_conv)

declare recv_loop.simps [simp del]

definition recv_all :: "bytes list \<Rightarrow> tcp_end \<Rightarrow> nat \<Rightarrow> bytes outcome \<times> bytes list" where
  "recv_all segs e len = recv_loop segs e len []"

definition fmt_HBBII6H :: "fmt list" where
  "fmt_HBBII6H =
     [Fmt_H, Fmt_B, Fmt_B, Fmt_I, Fmt_I, Fmt_H, Fmt_H, Fmt_H, Fmt_H, Fmt_H, Fmt_H]"

text \<open>The dictionary \<open>read_calibration_info\<close> returns: its values are integers and one list.\<close>

datatype pyval = Int_val int | List_val "int list"

type_synonym calibration_info = "(string \<times> pyval) list"

text \<open>
  The part of \<open>read_calibration_info\<close> after the response has been read: the check of
  the length, the decoding, the check of the header.
\<close>

definition decode_calibration :: "bytes \<Rightarrow> calibration_info outcome" where
  "decode_calibration response =
     (if length response \<noteq> 24
      then Raise (RuntimeError (''Invalid response length: '' @ str_int (int (length response))))
      else and_then (struct_unpack fmt_HBBII6H response) (\<lambda>fields.
        case fields of
          header # force_unit # torque_unit # cpf # cpt # scale_factors \<Rightarrow>
            (if header \<noteq> 0x1234 then Raise (RuntimeError (''Invalid header: '' @ hex header))
             else Return
               [(''force_unit_code'', Int_val force_unit),
                (''torque_unit_code'', Int_val torque_unit),
                (''counts_per_force'', Int_val cpf),
                (''counts_per_torque'', Int_val cpt),
                (''scale_factors'', List_val scale_factors)])
        | _ \<Rightarrow> Raise ValueError))"

text \<open>
  \<open>read_calibration_info\<close>. The \<open>with\<close> statement closes the socket however its body
  ends. \<open>self.ip\<close> is evaluated for the argument of \<open>connect\<close>, before the call.
\<close>

definition read_calibration_info :: "sensor \<Rightarrow> peer \<Rightarrow> calibration_info outcome \<times> tcp_call list" where
  "read_calibration_info self p =
     (let opened = [Socket, SetTimeout (timeout self)] in
      case ip self of
        None \<Rightarrow> (Raise (AttributeError ''ip''), opened @ [Close])
      | Some host \<Rightarrow>
          (let connected = opened @ [Connect host (tcp_port self)] in
           case connect_fault p of
             Some e \<Rightarrow> (Raise e, connected @ [Close])
           | None \<Rightarrow>
               (let cmd = pack_B19x 1; asked = connected @ [SendAll cmd] in
                case sendall_fault p of
                  Some e \<Rightarrow> (Raise e, asked @ [Close])
                | None \<Rightarrow>
                    (case fst (recv_all (segments p) (ending p) 24) of
                       Raise e \<Rightarrow> (Raise e, asked @ [Close])
                     | Blocked \<Rightarrow> (Blocked, asked)
                     | Return response \<Rightarrow> (decode_calibration response, asked @ [Close])))))"

subsection \<open>The unit tables\<close>

definition dict_get :: "('k \<times> 'v) list \<Rightarrow> 'k \<Rightarrow> 'v \<Rightarrow> 'v" where
  "dict_get d k dflt = (case map_of d k of None \<Rightarrow> dflt | Some v \<Rightarrow> v)"

definition force_units :: "(int \<times> string) list" where
  "force_units =
     [(1, ''Pound''), (2, ''Newton''), (3, ''Kilopound''), (4, ''Kilonewton''),
      (5, ''Kilogram''), (6, ''Gram'')]"

definition torque_units :: "(int \<times> string) list" where
  "torque_units =
     [(1, ''Pound-inch''), (2, ''Pound-foot''), (3, ''Newton-meter''),
      (4, ''Newton-millimeter''), (5, ''Kilogram-centimeter''), (6, ''Kilonewton-meter'')]"

definition describe_units :: "int \<Rightarrow> bool \<Rightarrow> string" where
  "describe_units code is_force =
     (if is_force then dict_get force_units code ''Unknown''
      else dict_get torque_units code ''Unknown'')"

subsection \<open>What the properties speak of\<close>


definition pack_i :: "int \<Rightarrow> bytes" where
  "pack_i x = (let u = x mod 2 ^ 32
               in [word_of_int (u div 2 ^ 24), word_of_int (u div 2 ^ 16),
                   word_of_int (u div 2 ^ 8), word_of_int u])"

definition wire_counts :: "int list \<Rightarrow> bytes" where
  "wire_counts R = concat (map pack_i R)"

text \<open>The next \<open>sendto\<close> succeeds: the socket is open and the transport takes the datagram.\<close>

definition accepts_send :: "world \<Rightarrow> bool" where
  "accepts_send w =
     (\<not> sock_closed w \<and> (case send_faults w of Some e # rest \<Rightarrow> False | _ \<Rightarrow> True))"

text \<open>A world with an open socket in which nothing has happened and nothing arrives.\<close>

definition quiet :: world where
  "quiet = \<lparr> sock_closed = False, sent = [], recv_calls = 0, send_faults = [],
             arrivals = [], stdout = [] \<rparr>"


text \<open>A response of 40 bytes: the counts 1 to 6 and four bytes too many.\<close>

definition oversize :: bytes where
  "oversize = replicate 12 0 @ wire_counts [1, 2, 3, 4, 5, 6] @ [0xDE, 0xAD, 0xBE, 0xEF]"

text \<open>
  The calibration query gets as far as reading the response: the instance has the
  attribute \<open>ip\<close>, and \<open>connect\<close> and \<open>sendall\<close> succeed.
\<close>

definition reachable :: "sensor \<Rightarrow> peer \<Rightarrow> bool" where
  "reachable self p = (ip self \<noteq> None \<and> connect_fault p = None \<and> sendall_fault p = None)"

text \<open>What \<open>recv\<close> meets when no byte is left.\<close>

definition at_end :: "tcp_end \<Rightarrow> bytes outcome" where
  "at_end e = (case e of PeerCloses \<Rightarrow> Return [] | Stalls \<Rightarrow> Raise (OSError ''timed out''))"

text \<open>
  The layout of the calibration response, field by field: the header in bytes 0 and 1,
  the unit codes in bytes 2 and 3, the two 32-bit divisors in bytes 4 to 11, six 16-bit
  scale factors in bytes 12 to 23.
\<close>

definition calibration_fields :: "bytes \<Rightarrow> calibration_info" where
  "calibration_fields response =
     [(''force_unit_code'', Int_val (be_uint (slice 2 3 response))),
      (''torque_unit_code'', Int_val (be_uint (slice 3 4 response))),
      (''counts_per_force'', Int_val (be_uint (slice 4 8 response))),
      (''counts_per_torque'', Int_val (be_uint (slice 8 12 response))),
      (''scale_factors'', List_val
         [be_uint (slice 12 14 response), be_uint (slice 14 16 response),
          be_uint (slice 16 18 response), be_uint (slice 18 20 response),
          be_uint (slice 20 22 response), be_uint (slice 22 24 response)])]"

definition unsigned :: "nat \<Rightarrow> int \<Rightarrow> bool" where
  "unsigned width v = (0 \<le> v \<and> v < 2 ^ width)"

text \<open>
  An instance whose attribute \<open>ip\<close> a caller has assigned, a sensor that answers in
  the given pieces and closes the connection, and two calibration responses.
\<close>

definition patched :: sensor where
  "patched = (init_default ''192.168.1.1'' 1000000 1000)\<lparr>ip := Some ''192.168.1.1''\<rparr>"

definition answering :: "bytes list \<Rightarrow> peer" where
  "answering segs =
     \<lparr> connect_fault = None, sendall_fault = None, segments = segs, ending = PeerCloses \<rparr>"

definition newton_response :: bytes where
  "newton_response =
     [0x12, 0x34, 2, 3,  0x00, 0x0F, 0x42, 0x40,  0x00, 0x00, 0x03, 0xE8,
      0, 1, 0, 2, 0, 3, 0, 4, 0, 5, 0, 6]"

definition garbled_response :: bytes where
  "garbled_response =
     [0xAB, 0xCD, 2, 3,  0x00, 0x0F, 0x42, 0x40,  0x00, 0x00, 0x03, 0xE8,
      0, 1, 0, 2, 0, 3, 0, 4, 0, 5, 0, 6]"

section \<open>Properties\<close>

subsection \<open>Decoding the raw counts\<close>




lemma length_pack_i: "length (pack_i x) = 4"
  by (simp add: pack_i_def Let_def)




subsection \<open>The exchange of \<open>read_raw_counts\<close>\<close>

lemma sendto_accepted:
  assumes "accepts_send w"
  shows "sendto d a w = (Return (), snd (sendto d a w))"
    and "sock_closed (snd (sendto d a w)) = False"
    and "arrivals (snd (sendto d a w)) = arrivals w"
    and "sent (snd (sendto d a w)) = sent w @ [(d, a)]"
    and "recv_calls (snd (sendto d a w)) = recv_calls w"
  using assms
  by (auto simp: accepts_send_def sendto_def split: list.splits option.splits)




subsection \<open>The unit tables\<close>

text \<open>
  C7: \<open>describe_units\<close> is a total lookup. Each code from 1 to 6 gives the name the
  force table holds for it when \<open>is_force\<close> is true and the name the torque table holds
  when it is false; every other code gives \<open>Unknown\<close>, for both values of the flag.
  Force code 2 is Newton and torque code 3 is Newton-meter.
\<close>

theorem describe_units_lookup:
  "map (\<lambda>c. describe_units c True) [1, 2, 3, 4, 5, 6] =
     [''Pound'', ''Newton'', ''Kilopound'', ''Kilonewton'', ''Kilogram'', ''Gram'']
   \<and> map (\<lambda>c. describe_units c False) [1, 2, 3, 4, 5, 6] =
     [''Pound-inch'', ''Pound-foot'', ''Newton-meter'', ''Newton-millimeter'',
      ''Kilogram-centimeter'', ''Kilonewton-meter'']
   \<and> (code \<notin> {1..6} \<longrightarrow> describe_units code is_force = ''Unknown'')"
  by (auto simp: describe_units_def dict_get_def force_units_def torque_units_def)

theorem describe_units_lookup_witness:
  "(7::int) \<notin> {1..6} \<and> describe_units 7 True = ''Unknown'' \<and> describe_units 0 False = ''Unknown''
   \<and> describe_units 2 True = ''Newton'' \<and> describe_units 3 False = ''Newton-meter''"
  using describe_units_lookup [of 7 True] describe_units_lookup [of 0 False]
  by simp

subsection \<open>The length of the response\<close>

lemma calcsize_6i: "calcsize fmt_6i = 24"
  by (simp add: calcsize_def fmt_6i_def)


text \<open>
  What \<open>read_raw_counts\<close> makes of a datagram \<open>d\<close>, by its length: \<open>recvfrom(36)\<close>
  hands over at most 36 bytes, so the test \<open>len(data) != 36\<close> rejects the datagrams
  shorter than 36 bytes and no others.
\<close>

lemma read_raw_counts_by_length:
  assumes "accepts_send w" and "arrivals w = Datagram d # rest"
  shows "fst (read_raw_counts self w) =
     (if length d < 36 then Raise (RuntimeError ''Invalid ATI response length'')
      else Return (unpack_fields fmt_6i (slice 12 36 d)))"
proof -
  define w1 where "w1 = snd (sendto (command self) (addr self) w)"
  have s: "sendto (command self) (addr self) w = (Return (), w1)"
    unfolding w1_def using assms(1) by (rule sendto_accepted(1))
  have w1: "sock_closed w1 = False" "arrivals w1 = arrivals w"
    unfolding w1_def using assms(1) by (simp_all add: sendto_accepted(2,3))
  have sl: "slice 12 36 (take 36 d) = slice 12 36 d"
    by (simp add: slice_def drop_take)
  have len: "36 \<le> length d \<Longrightarrow> length (slice 12 36 d) = 24"
    by (simp add: slice_def)
  show ?thesis
    using s w1 assms(2) len
    by (simp add: read_raw_counts_def recvfrom_def struct_unpack_def calcsize_6i sl min_def)
qed

lemma length_oversize: "length oversize = 40"
  by (simp add: oversize_def wire_counts_def length_pack_i)

text \<open>
  C2: a response is decoded if and only if it is exactly 36 bytes long, and every other
  length raises the error of the protocol. The code does so for the shorter ones. A
  longer one it cuts to its first 36 bytes and decodes: the response \<open>oversize\<close> of 40
  bytes gives the reading (1, 2, 3, 4, 5, 6) and no error.
\<close>

theorem read_raw_counts_oversize:
  "length oversize = 40
   \<and> fst (read_raw_counts (init_default ''192.168.1.1'' 1000000 1000)
            (quiet\<lparr>arrivals := [Datagram oversize]\<rparr>)) = Return [1, 2, 3, 4, 5, 6]"
proof -
  have "fst (read_raw_counts (init_default ''192.168.1.1'' 1000000 1000)
            (quiet\<lparr>arrivals := [Datagram oversize]\<rparr>)) = Return [1, 2, 3, 4, 5, 6]"
    by (simp add: oversize_def wire_counts_def pack_i_def read_raw_counts_def sendto_def
        recvfrom_def quiet_def slice_def struct_unpack_def fmt_6i_def calcsize_def
        be_sint_def be_uint_def)
  then show ?thesis
    by (simp add: length_oversize)
qed

subsection \<open>The scale factors\<close>







subsection \<open>The bias command\<close>

text \<open>
  C8: \<open>bias_current_value\<close> returns normally whatever the send does. It calls
  \<open>recvfrom\<close> not once and leaves the arriving datagrams where they are. When the send
  raises \<open>e\<close>, nothing is sent and the line \<open>[Bias Error]\<close> with the text of \<open>e\<close> is
  printed.
\<close>

theorem bias_never_raises:
  "fst (bias_current_value self w) = Return ()
   \<and> recv_calls (snd (bias_current_value self w)) = recv_calls w
   \<and> arrivals (snd (bias_current_value self w)) = arrivals w
   \<and> (fst (sendto BIAS_CMD (addr self) w) = Raise e \<longrightarrow>
         stdout (snd (bias_current_value self w)) = stdout w @ [''[Bias Error] '' @ str_exn e]
         \<and> sent (snd (bias_current_value self w)) = sent w)"
  by (auto simp: bias_current_value_def sendto_def print_def split: list.splits option.splits)

theorem bias_never_raises_witness:
  "fst (sendto BIAS_CMD (addr (init_default ''192.168.1.1'' 1000000 1000))
          (quiet\<lparr>send_faults := [Some (OSError ''[Errno 101] Network is unreachable'')]\<rparr>))
     = Raise (OSError ''[Errno 101] Network is unreachable'')
   \<and> bias_current_value (init_default ''192.168.1.1'' 1000000 1000)
          (quiet\<lparr>send_faults := [Some (OSError ''[Errno 101] Network is unreachable'')]\<rparr>)
     = (Return (), quiet\<lparr>stdout := [''[Bias Error] [Errno 101] Network is unreachable'']\<rparr>)"
  using bias_never_raises [of "init_default ''192.168.1.1'' 1000000 1000"
      "quiet\<lparr>send_faults := [Some (OSError ''[Errno 101] Network is unreachable'')]\<rparr>"
      "OSError ''[Errno 101] Network is unreachable''"]
  by (simp add: bias_current_value_def sendto_def print_def quiet_def)

subsection \<open>After \<open>close\<close>\<close>




subsection \<open>One datagram for each call\<close>



subsection \<open>The calibration query: the missing attribute\<close>


subsection \<open>The calibration query: reading the response\<close>

lemma recv_cases:
  assumes "0 < n"
  shows "(concat segs = [] \<and> recv n segs e = (at_end e, []))
       \<or> (\<exists>packet segs'. recv n segs e = (Return packet, segs') \<and> packet \<noteq> []
             \<and> length packet \<le> n \<and> packet @ concat segs' = concat segs)"
proof (induction segs)
  case Nil
  show ?case by (cases e) (simp_all add: at_end_def)
next
  case (Cons seg rest)
  show ?case
  proof (cases "seg = []")
    case True
    with Cons show ?thesis by simp
  next
    case False
    show ?thesis
    proof (cases "length seg \<le> n")
      case True
      with False show ?thesis by simp
    next
      case long: False
      with False assms show ?thesis by simp
    qed
  qed
qed

text \<open>
  The loop returns the bytes it had with as many of the arriving bytes as are missing,
  however they are cut into pieces; when fewer arrive it returns what there is if the
  peer closes, and raises the timeout if the peer stalls.
\<close>

lemma recv_loop_reads:
  "fst (recv_loop segs e len data) =
     (if len - length data \<le> length (concat segs)
      then Return (data @ take (len - length data) (concat segs))
      else case e of PeerCloses \<Rightarrow> Return (data @ concat segs)
                   | Stalls \<Rightarrow> Raise (OSError ''timed out''))"
proof (induction segs e len data rule: recv_loop.induct)
  case (1 segs e len data)
  show ?case
  proof (cases "length data < len")
    case False
    then show ?thesis by (subst recv_loop.simps) simp
  next
    case True
    then have n: "0 < len - length data" by simp
    from recv_cases [OF n, of segs e] show ?thesis
    proof (elim disjE conjE exE)
      assume empty: "concat segs = []"
        and r: "recv (len - length data) segs e = (at_end e, [])"
      have len0: "length (concat segs) = 0"
        by (simp only: empty list.size)
      have "recv_loop segs e len data =
              (case e of PeerCloses \<Rightarrow> (Return data, [])
                       | Stalls \<Rightarrow> (Raise (OSError ''timed out''), []))"
        using True r by (subst recv_loop.simps) (cases e; simp add: at_end_def)
      then show ?thesis
        using True len0 empty by (cases e) (simp_all only: , simp_all)
    next
      fix packet segs'
      assume r: "recv (len - length data) segs e = (Return packet, segs')"
        and ne: "packet \<noteq> []"
        and le: "length packet \<le> len - length data"
        and cat: "packet @ concat segs' = concat segs"
      have step: "recv_loop segs e len data = recv_loop segs' e len (data @ packet)"
        using True r ne by (subst recv_loop.simps) simp
      have ih: "fst (recv_loop segs' e len (data @ packet)) =
         (if len - length (data @ packet) \<le> length (concat segs')
          then Return ((data @ packet) @ take (len - length (data @ packet)) (concat segs'))
          else case e of PeerCloses \<Rightarrow> Return ((data @ packet) @ concat segs')
                       | Stalls \<Rightarrow> Raise (OSError ''timed out''))"
        using True r ne by (intro "1.IH") simp_all
      have l: "length (concat segs) = length packet + length (concat segs')"
        using cat [symmetric] by simp
      have t: "take (len - length data) (concat segs) =
                 packet @ take (len - length (data @ packet)) (concat segs')"
        using le by (simp add: cat [symmetric])
      show ?thesis
        unfolding step ih using le l t cat [symmetric]
        by (auto split: tcp_end.splits)
    qed
  qed
qed

lemma recv_all_reads:
  "fst (recv_all segs e n) =
     (if n \<le> length (concat segs) then Return (take n (concat segs))
      else case e of PeerCloses \<Rightarrow> Return (concat segs)
                   | Stalls \<Rightarrow> Raise (OSError ''timed out''))"
  by (cases e) (simp_all add: recv_all_def recv_loop_reads)

lemma read_calibration_info_reachable:
  assumes "reachable self p"
  shows "fst (read_calibration_info self p) =
     and_then (fst (recv_all (segments p) (ending p) 24)) decode_calibration"
  using assms
  by (auto simp: reachable_def read_calibration_info_def Let_def and_then_def
      split: outcome.splits)

text \<open>Whenever a calibration record is returned, at least 24 bytes had arrived.\<close>

lemma decodes_only_24:
  assumes "fst (read_calibration_info self p) = Return info"
  shows "24 \<le> length (concat (segments p))"
proof (rule ccontr)
  assume "\<not> 24 \<le> length (concat (segments p))"
  then have short: "length (concat (segments p)) < 24" by simp
  then have "fst (recv_all (segments p) (ending p) 24) =
      (case ending p of PeerCloses \<Rightarrow> Return (concat (segments p))
                      | Stalls \<Rightarrow> Raise (OSError ''timed out''))"
    by (simp add: recv_all_reads)
  with assms short show False
    by (auto simp: read_calibration_info_def Let_def decode_calibration_def
        split: option.splits tcp_end.splits)
qed

text \<open>
  C6: when the sensor closes the connection after fewer than 24 bytes, the loop of
  \<open>recv_all\<close> has gathered all of them, from however many pieces, and
  \<open>read_calibration_info\<close> raises the error that gives their number; nothing is
  decoded.
\<close>

theorem short_read:
  assumes "reachable self p"
    and "ending p = PeerCloses"
    and "length (concat (segments p)) < 24"
  shows "fst (recv_all (segments p) (ending p) 24) = Return (concat (segments p))
     \<and> fst (read_calibration_info self p) =
        Raise (RuntimeError (''Invalid response length: '' @
                 str_int (int (length (concat (segments p))))))"
proof -
  have r: "fst (recv_all (segments p) (ending p) 24) = Return (concat (segments p))"
    using assms(2,3) by (simp add: recv_all_reads)
  then show ?thesis
    using assms(1,3)
    by (simp add: read_calibration_info_reachable and_then_def decode_calibration_def)
qed

theorem short_read_witness:
  "reachable patched (answering [[1, 2, 3], [], [4, 5, 6, 7, 8, 9, 10]])
   \<and> fst (read_calibration_info patched (answering [[1, 2, 3], [], [4, 5, 6, 7, 8, 9, 10]]))
       = Raise (RuntimeError ''Invalid response length: 10'')"
proof -
  have r: "reachable patched (answering [[1, 2, 3], [], [4, 5, 6, 7, 8, 9, 10]])"
    by (simp add: reachable_def patched_def answering_def)
  have d: "str_int 10 = ''10''"
    by (simp add: str_int_def digit_char_def)
  show ?thesis
    using r d short_read [OF r]
    by (simp add: answering_def)
qed

subsection \<open>The calibration query: decoding and the header\<close>

lemma be_uint_snoc: "be_uint (bs @ [b]) = be_uint bs * 256 + uint b"
  by (simp add: be_uint_def)

lemma be_uint_range: "0 \<le> be_uint bs \<and> be_uint bs < 256 ^ length bs"
proof (induction bs rule: rev_induct)
  case Nil
  show ?case by (simp add: be_uint_def)
next
  case (snoc b bs)
  have b: "0 \<le> uint b" "uint b < 256"
    using uint_bounded [of b] by simp_all
  from snoc have "be_uint bs + 1 \<le> 256 ^ length bs" by simp
  then have "(be_uint bs + 1) * 256 \<le> 256 ^ length bs * 256"
    by (rule mult_right_mono) simp
  with snoc b show ?case
    by (simp add: be_uint_snoc algebra_simps)
qed

lemma unsigned_slice:
  assumes "j \<le> length bs" "i \<le> j" "width = 8 * (j - i)"
  shows "unsigned width (be_uint (slice i j bs))"
proof -
  have "length (slice i j bs) = j - i"
    using assms(1,2) by (simp add: slice_def)
  with be_uint_range [of "slice i j bs"] have "be_uint (slice i j bs) < 256 ^ (j - i)"
    and "0 \<le> be_uint (slice i j bs)" by simp_all
  moreover have "(256::int) ^ (j - i) = 2 ^ (8 * (j - i))"
    by (simp add: power_mult)
  ultimately show ?thesis
    by (simp add: unsigned_def assms(3))
qed

lemma decode_calibration_24:
  assumes "length response = 24"
  shows "decode_calibration response =
     (if be_uint (slice 0 2 response) \<noteq> 0x1234
      then Raise (RuntimeError (''Invalid header: '' @ hex (be_uint (slice 0 2 response))))
      else Return (calibration_fields response))"
proof -
  have n: "Suc (Suc (Suc 0)) = 3" "Suc 3 = 4"
    by simp_all
  show ?thesis
    using assms
    by (simp add: decode_calibration_def struct_unpack_def fmt_HBBII6H_def calcsize_def
        and_then_def slice_def calibration_fields_def n)
qed

text \<open>\<open>hex\<close> names its argument: two values that are not negative and differ are written differently.\<close>

lemma digit_char_inj:
  assumes "a < 16" "b < 16" "digit_char a = digit_char b"
  shows "a = b"
proof -
  have "distinct ''0123456789abcdef''" by simp
  then show ?thesis
    using assms nth_eq_iff_index_eq [of "''0123456789abcdef''" a b]
    by (simp add: digit_char_def)
qed

lemma digits_not_Nil: "digits b n \<noteq> []"
  by (subst digits.simps) simp

lemma digits_inj:
  assumes "2 \<le> b" "b \<le> 16" "digits b n = digits b m"
  shows "n = m"
  using assms
proof (induction b n arbitrary: m rule: digits.induct)
  case (1 b n)
  show ?case
  proof (cases "n < b")
    case small_n: True
    then have dn: "digits b n = [digit_char n]"
      by (subst digits.simps) simp
    show ?thesis
    proof (cases "m < b")
      case True
      then have "digits b m = [digit_char m]"
        by (subst digits.simps) simp
      with dn "1.prems" small_n True show ?thesis
        by (auto intro: digit_char_inj)
    next
      case False
      then have "digits b m = digits b (m div b) @ [digit_char (m mod b)]"
        using "1.prems"(1) by (subst digits.simps) simp
      with dn "1.prems"(3) digits_not_Nil [of b "m div b"] show ?thesis
        by simp
    qed
  next
    case big_n: False
    then have dn: "digits b n = digits b (n div b) @ [digit_char (n mod b)]"
      using "1.prems"(1) by (subst digits.simps) simp
    show ?thesis
    proof (cases "m < b")
      case True
      then have "digits b m = [digit_char m]"
        by (subst digits.simps) simp
      with dn "1.prems"(3) digits_not_Nil [of b "n div b"] show ?thesis
        by simp
    next
      case False
      then have dm: "digits b m = digits b (m div b) @ [digit_char (m mod b)]"
        using "1.prems"(1) by (subst digits.simps) simp
      from dn dm "1.prems"(3)
      have hi: "digits b (n div b) = digits b (m div b)"
        and lo: "digit_char (n mod b) = digit_char (m mod b)"
        by simp_all
      have "n div b = m div b"
        using big_n "1.prems"(1,2) hi by (intro "1.IH") simp_all
      moreover have "n mod b = m mod b"
      proof (rule digit_char_inj [OF _ _ lo])
        show "n mod b < 16" "m mod b < 16"
          using "1.prems"(1,2) by (simp_all add: less_le_trans [OF mod_less_divisor])
      qed
      ultimately show ?thesis
        by (metis div_mult_mod_eq)
    qed
  qed
qed

lemma hex_inj:
  assumes "0 \<le> i" "0 \<le> j" "hex i = hex j"
  shows "i = j"
proof -
  have "digits 16 (nat i) = digits 16 (nat j)"
    using assms by (simp add: hex_def)
  then have "nat i = nat j"
    by (intro digits_inj [of 16]) simp_all
  with assms(1,2) show ?thesis by simp
qed

text \<open>
  C5: a response of 24 bytes is decoded big-endian into a header of 16 bits, two unit
  codes of 8 bits, two divisors of 32 bits and six scale factors of 16 bits, whatever the
  pieces it arrives in. When the header is not 0x1234, \<open>read_calibration_info\<close> raises
  the error whose message ends with \<open>hex\<close> of the header received; when it is, the
  record of the decoded fields is returned.
\<close>

theorem calibration_header_checked:
  assumes "reachable self p"
    and "24 \<le> length (concat (segments p))"
    and "response = take 24 (concat (segments p))"
    and "header = be_uint (slice 0 2 response)"
  shows "fst (read_calibration_info self p) =
           (if header \<noteq> 0x1234 then Raise (RuntimeError (''Invalid header: '' @ hex header))
            else Return (calibration_fields response))
     \<and> unsigned 16 header
     \<and> unsigned 8 (be_uint (slice 2 3 response)) \<and> unsigned 8 (be_uint (slice 3 4 response))
     \<and> unsigned 32 (be_uint (slice 4 8 response)) \<and> unsigned 32 (be_uint (slice 8 12 response))
     \<and> unsigned 16 (be_uint (slice 12 14 response)) \<and> unsigned 16 (be_uint (slice 14 16 response))
     \<and> unsigned 16 (be_uint (slice 16 18 response)) \<and> unsigned 16 (be_uint (slice 18 20 response))
     \<and> unsigned 16 (be_uint (slice 20 22 response)) \<and> unsigned 16 (be_uint (slice 22 24 response))"
proof -
  have len: "length response = 24"
    using assms(2,3) by simp
  have "fst (recv_all (segments p) (ending p) 24) = Return response"
    using assms(2,3) by (simp add: recv_all_reads)
  then have "fst (read_calibration_info self p) = decode_calibration response"
    using assms(1) by (simp add: read_calibration_info_reachable and_then_def)
  then have result: "fst (read_calibration_info self p) =
           (if header \<noteq> 0x1234 then Raise (RuntimeError (''Invalid header: '' @ hex header))
            else Return (calibration_fields response))"
    using decode_calibration_24 [OF len] assms(4) by simp
  have widths: "unsigned (8 * (j - i)) (be_uint (slice i j response))"
    if "j \<le> 24" "i \<le> j" for i j
    using that len by (intro unsigned_slice) simp_all
  have h: "unsigned 16 header"
    unfolding assms(4) using widths [of 2 0] by simp
  show ?thesis
    using result h widths [of 3 2] widths [of 4 3] widths [of 8 4] widths [of 12 8]
      widths [of 14 12] widths [of 16 14] widths [of 18 16] widths [of 20 18]
      widths [of 22 20] widths [of 24 22]
    by simp
qed

theorem calibration_header_checked_witness:
  "reachable patched (answering [take 10 garbled_response, drop 10 garbled_response])
   \<and> fst (read_calibration_info patched
            (answering [take 10 garbled_response, drop 10 garbled_response]))
       = Raise (RuntimeError ''Invalid header: 0xabcd'')"
proof -
  have r: "reachable patched (answering [take 10 garbled_response, drop 10 garbled_response])"
    by (simp add: reachable_def patched_def answering_def)
  have l: "24 \<le> length (concat (segments
             (answering [take 10 garbled_response, drop 10 garbled_response])))"
    by (simp add: answering_def garbled_response_def)
  have h: "be_uint (slice 0 2 garbled_response) = 0xABCD"
    by (simp add: garbled_response_def slice_def be_uint_def)
  have x: "hex 0xABCD = ''0xabcd''"
    by (simp add: hex_def digit_char_def)
  have t: "take 24 (concat (segments
             (answering [take 10 garbled_response, drop 10 garbled_response])))
           = garbled_response"
    by (simp add: answering_def garbled_response_def)
  show ?thesis
    using r calibration_header_checked [OF r l t [symmetric] h [symmetric]] x
    by simp
qed

text \<open>
  The third scenario of the specification: a response with the header 0x1234 and the
  unit codes 2 and 3 is decoded, and the codes are named Newton and Newton-meter.
\<close>

lemma newton_scenario:
  "fst (read_calibration_info patched (answering [newton_response])) =
     Return [(''force_unit_code'', Int_val 2), (''torque_unit_code'', Int_val 3),
             (''counts_per_force'', Int_val 1000000), (''counts_per_torque'', Int_val 1000),
             (''scale_factors'', List_val [1, 2, 3, 4, 5, 6])]
   \<and> describe_units 2 True = ''Newton'' \<and> describe_units 3 False = ''Newton-meter''"
proof -
  have r: "reachable patched (answering [newton_response])"
    by (simp add: reachable_def patched_def answering_def)
  have "fst (recv_all (segments (answering [newton_response]))
               (ending (answering [newton_response])) 24) = Return newton_response"
    by (simp add: recv_all_reads answering_def newton_response_def)
  then have "fst (read_calibration_info patched (answering [newton_response])) =
      decode_calibration newton_response"
    using r by (simp add: read_calibration_info_reachable and_then_def)
  also have "\<dots> = Return (calibration_fields newton_response)"
    by (subst decode_calibration_24)
      (simp_all add: newton_response_def slice_def be_uint_def)
  finally show ?thesis
    by (simp add: calibration_fields_def newton_response_def slice_def be_uint_def
        describe_units_def dict_get_def force_units_def torque_units_def)
qed

end
